theory Spec2Isabelle
  imports Main "HOL-Library.Sublist"
begin

section \<open>Text, characters and dictionaries\<close>

text \<open>
  The analysers open their input with \<^verbatim>\<open>encoding='latin-1'\<close>, so every byte of the
  file is one character of the Python string. A line is modelled as a \<^typ>\<open>string\<close>, whose
  characters are exactly these 256 code points. A file is the list of its lines, each
  still carrying its line terminator, in the order the \<^verbatim>\<open>for linea in archivo\<close>
  loop yields them.
\<close>

definition cp :: "char \<Rightarrow> nat" where
  "cp c = of_char c"

text \<open>\<^verbatim>\<open>str.isspace\<close> on the Latin-1 range; \<^verbatim>\<open>strip\<close>, \<^verbatim>\<open>split\<close> and the
  regular-expression class \<^verbatim>\<open>\s\<close> all use it.\<close>

definition isspace :: "char \<Rightarrow> bool" where
  "isspace c = (let n = cp c in (9 \<le> n \<and> n \<le> 13) \<or> (28 \<le> n \<and> n \<le> 32) \<or> n = 133 \<or> n = 160)"

definition es_mayuscula_ascii :: "char \<Rightarrow> bool" where
  "es_mayuscula_ascii c = (65 \<le> cp c \<and> cp c \<le> 90)"

definition es_minuscula_ascii :: "char \<Rightarrow> bool" where
  "es_minuscula_ascii c = (97 \<le> cp c \<and> cp c \<le> 122)"

definition es_digito_ascii :: "char \<Rightarrow> bool" where
  "es_digito_ascii c = (48 \<le> cp c \<and> cp c \<le> 57)"

text \<open>
  \<^verbatim>\<open>str.upper\<close>, character by character. ASCII letters and the Latin-1 letters
  \<^verbatim>\<open>0xE0..0xFE\<close> (without the division sign \<^verbatim>\<open>0xF7\<close>) move down by 32, and the
  sharp s \<^verbatim>\<open>0xDF\<close> becomes the two letters \<^verbatim>\<open>SS\<close>, so the upper-cased text can be
  longer than the text. Python maps two more Latin-1 characters, the micro sign
  \<^verbatim>\<open>0xB5\<close> to \<^verbatim>\<open>U+039C\<close> and \<^verbatim>\<open>0xFF\<close> to \<^verbatim>\<open>U+0178\<close>, which are no characters of the
  8-bit type \<^typ>\<open>char\<close>: the model writes these two images with the codes \<^verbatim>\<open>0xB5\<close> and
  \<^verbatim>\<open>0xFF\<close> of their originals. Like their originals, the two images are word characters,
  no white space, no ASCII character and not in \<^verbatim>\<open>[A-Z0-9-]\<close>, and they are their own
  upper case, so each test the program makes on a text has the same result on the
  model's text; a name the program returns that contains one of the two is written
  with the code of the original.
\<close>

definition upper_char :: "char \<Rightarrow> string" where
  "upper_char c =
     (let n = cp c in
      if (97 \<le> n \<and> n \<le> 122) \<or> (224 \<le> n \<and> n \<le> 254 \<and> n \<noteq> 247)
      then [char_of (n - 32)]
      else if n = 223 then ''SS''
      else [c])"

definition upper :: "string \<Rightarrow> string" where
  "upper s = concat (map upper_char s)"

text \<open>
  The lower case of one character, as the regular-expression engine computes it to
  compare a character of the text with a character of the pattern under
  \<^verbatim>\<open>re.IGNORECASE\<close>: ASCII capitals and the Latin-1 capitals \<^verbatim>\<open>0xC0..0xDE\<close> (without
  the multiplication sign \<^verbatim>\<open>0xD7\<close>) move up by 32.
\<close>

definition lower_char :: "char \<Rightarrow> char" where
  "lower_char c =
     (let n = cp c in
      if (65 \<le> n \<and> n \<le> 90) \<or> (192 \<le> n \<and> n \<le> 222 \<and> n \<noteq> 215)
      then char_of (n + 32) else c)"

text \<open>\<^verbatim>\<open>s.lstrip()\<close>, \<^verbatim>\<open>s.rstrip()\<close>, \<^verbatim>\<open>s.strip()\<close>.\<close>

definition lstrip :: "string \<Rightarrow> string" where
  "lstrip s = dropWhile isspace s"

definition rstrip :: "string \<Rightarrow> string" where
  "rstrip s = rev (dropWhile isspace (rev s))"

definition strip :: "string \<Rightarrow> string" where
  "strip s = rstrip (lstrip s)"

text \<open>\<^verbatim>\<open>needle in s\<close> on strings: a scan over the start positions.\<close>

fun contiene :: "string \<Rightarrow> string \<Rightarrow> bool" where
  "contiene needle [] = (needle = [])"
| "contiene needle (c # s) = (prefix needle (c # s) \<or> contiene needle s)"

text \<open>
  A Python \<^verbatim>\<open>dict\<close> keeps its keys in insertion order and the code iterates over them
  (\<^verbatim>\<open>llamadas.items()\<close>, \<^verbatim>\<open>next(iter(diccionario))\<close>), so a dictionary is an association
  list in insertion order.
\<close>

type_synonym 'v dict = "(string \<times> 'v) list"

type_synonym grafo = "string list dict"

definition claves :: "'v dict \<Rightarrow> string list" where
  "claves d = map fst d"

definition dict_get :: "'v dict \<Rightarrow> string \<Rightarrow> 'v \<Rightarrow> 'v" where
  "dict_get d k dflt = (case map_of d k of None \<Rightarrow> dflt | Some v \<Rightarrow> v)"

text \<open>\<^verbatim>\<open>d[k] = v\<close>: an existing key keeps its place, a new key goes to the end.\<close>

fun dict_set :: "'v dict \<Rightarrow> string \<Rightarrow> 'v \<Rightarrow> 'v dict" where
  "dict_set [] k v = [(k, v)]"
| "dict_set ((k', v') # d) k v = (if k' = k then (k, v) # d else (k', v') # dict_set d k v)"

text \<open>\<^verbatim>\<open>d.setdefault(k, []).append(x)\<close>.\<close>

definition dict_append :: "'a list dict \<Rightarrow> string \<Rightarrow> 'a \<Rightarrow> 'a list dict" where
  "dict_append d k x = dict_set d k (dict_get d k [] @ [x])"

datatype py_error = KeyError string | IndexError | ValueError

section \<open>The paragraph analyser: line classifier\<close>

text \<open>
  \<^verbatim>\<open>return not linea or (len(linea) >= 7 and linea[6] == '*')\<close>
\<close>

definition es_linea_ignorable :: "string \<Rightarrow> bool" where
  "es_linea_ignorable linea = (linea = [] \<or> (length linea \<ge> 7 \<and> linea ! 6 = CHR ''*''))"

section \<open>The paragraph analyser: reachability filter\<close>

text \<open>
  The inner \<^verbatim>\<open>while pendientes\<close> loop of \<^verbatim>\<open>filtrar_desde_parrafo_inicio\<close>, for one
  \<^verbatim>\<open>origen\<close>. \<^verbatim>\<open>pendientes.pop()\<close> takes the last element. \<^verbatim>\<open>resultado[origen]\<close> raises
  \<^verbatim>\<open>KeyError\<close> when \<^verbatim>\<open>origen\<close> is not a key of \<^verbatim>\<open>resultado\<close>.
\<close>

function recorrer_pendientes :: "grafo \<Rightarrow> string \<Rightarrow> grafo \<Rightarrow> string list \<Rightarrow> py_error + grafo" where
  "recorrer_pendientes llamadas origen resultado pendientes =
     (if pendientes = [] then Inr resultado
      else if last pendientes \<in> set (claves resultado)
        then recorrer_pendientes llamadas origen resultado (butlast pendientes)
      else if last pendientes \<in> set (claves llamadas)
        then (case map_of resultado origen of
                None \<Rightarrow> Inl (KeyError origen)
              | Some ds \<Rightarrow> recorrer_pendientes llamadas origen
                            (dict_set resultado origen (ds @ [last pendientes])) (butlast pendientes))
      else recorrer_pendientes llamadas origen resultado
             (butlast pendientes @ dict_get llamadas (last pendientes) []))"
  by pat_completeness auto
termination
proof (relation "measure (\<lambda>(llamadas, origen, resultado, pendientes). length pendientes)")
  fix llamadas :: grafo and origen :: string and resultado :: grafo and pendientes :: "string list"
  assume ne: "pendientes \<noteq> []" and nk: "last pendientes \<notin> set (claves llamadas)"
  from nk have "map_of llamadas (last pendientes) = None"
    by (simp add: claves_def map_of_eq_None_iff)
  then have "dict_get llamadas (last pendientes) [] = []"
    by (simp add: dict_get_def)
  with ne show "((llamadas, origen, resultado,
                  butlast pendientes @ dict_get llamadas (last pendientes) []),
                 (llamadas, origen, resultado, pendientes))
                \<in> measure (\<lambda>(llamadas, origen, resultado, pendientes). length pendientes)"
    by simp
qed auto

text \<open>The outer \<^verbatim>\<open>for origen, destinos in list(llamadas.items())\<close> loop; an exception
  leaves it.\<close>

fun recorrer_origenes :: "grafo \<Rightarrow> (string \<times> string list) list \<Rightarrow> grafo \<Rightarrow> py_error + grafo" where
  "recorrer_origenes llamadas [] resultado = Inr resultado"
| "recorrer_origenes llamadas ((origen, destinos) # resto) resultado =
     (case recorrer_pendientes llamadas origen resultado destinos of
        Inl e \<Rightarrow> Inl e
      | Inr r \<Rightarrow> recorrer_origenes llamadas resto r)"

definition mensaje_no_existe :: "string \<Rightarrow> string" where
  "mensaje_no_existe parrafo_inicio =
     ''El parrafo '' @ [CHR 0x27] @ parrafo_inicio @ [CHR 0x27] @ '' no existe en el archivo''"

text \<open>
  \<^verbatim>\<open>filtrar_desde_parrafo_inicio\<close> returns the lines it printed and either the exception
  it raised or the dictionary it returned. \<^verbatim>\<open>resultado[parrafo_inicio]\<close> is the very list
  object stored under \<^verbatim>\<open>llamadas[parrafo_inicio]\<close>, so the appends also change the
  caller's \<^verbatim>\<open>llamadas\<close>; the function itself reads only the keys of \<^verbatim>\<open>llamadas\<close> and the
  lists of the snapshot \<^verbatim>\<open>list(llamadas.items())\<close>, and it takes its copy of the start
  paragraph's list before the first append to it, so its own result does not depend on
  the sharing.
\<close>

definition filtrar_desde_parrafo_inicio :: "grafo \<Rightarrow> string \<Rightarrow> string list \<times> (py_error + grafo)" where
  "filtrar_desde_parrafo_inicio llamadas parrafo_inicio =
     (if parrafo_inicio \<notin> set (claves llamadas)
      then ([mensaje_no_existe parrafo_inicio], Inr [])
      else ([], recorrer_origenes llamadas llamadas
                  [(parrafo_inicio, dict_get llamadas parrafo_inicio [])]))"

text \<open>The nodes a graph contains: its keys and the destinations in its lists.\<close>

definition nodos :: "grafo \<Rightarrow> string set" where
  "nodos g = set (claves g) \<union> (\<Union>(k, ds) \<in> set g. set ds)"

section \<open>The paragraph analyser: PERFORM detector\<close>

text \<open>\<^verbatim>\<open>s.split()\<close>: the maximal runs of non-whitespace characters, in order.
  \<^verbatim>\<open>actual\<close> is the run being read.\<close>

fun split_desde :: "string \<Rightarrow> string \<Rightarrow> string list" where
  "split_desde actual [] = (if actual = [] then [] else [actual])"
| "split_desde actual (c # s) =
     (if isspace c then (if actual = [] then split_desde [] s else actual # split_desde [] s)
      else split_desde (actual @ [c]) s)"

definition split :: "string \<Rightarrow> string list" where
  "split s = split_desde [] s"

text \<open>\<^verbatim>\<open>xs.index(x)\<close> raises \<^verbatim>\<open>ValueError\<close> when \<^verbatim>\<open>x\<close> is absent; \<^verbatim>\<open>xs[i]\<close> raises
  \<^verbatim>\<open>IndexError\<close> past the end.\<close>

fun list_index :: "'a list \<Rightarrow> 'a \<Rightarrow> py_error + nat" where
  "list_index [] x = Inl ValueError"
| "list_index (y # ys) x =
     (if y = x then Inr 0 else (case list_index ys x of Inl e \<Rightarrow> Inl e | Inr i \<Rightarrow> Inr (Suc i)))"

definition list_item :: "'a list \<Rightarrow> nat \<Rightarrow> py_error + 'a" where
  "list_item xs i = (if i < length xs then Inr (xs ! i) else Inl IndexError)"

text \<open>\<^verbatim>\<open>s.rstrip('.')\<close>.\<close>

definition rstrip_punto :: "string \<Rightarrow> string" where
  "rstrip_punto s = rev (dropWhile (\<lambda>c. c = CHR ''.'') (rev s))"

definition palabras_no_destino :: "string list" where
  "palabras_no_destino =
     [''VARYING'', ''UNTIL'', ''WITH'', ''END-IF'', ''END-EXEC'', ''STOP RUN'', ''EXIT'', ''CONTINUE'']"

text \<open>The \<^verbatim>\<open>try\<close> block catches \<^verbatim>\<open>IndexError\<close> and \<^verbatim>\<open>ValueError\<close>, the only two
  exceptions its body raises.\<close>

definition detectar_perform :: "string \<Rightarrow> string option" where
  "detectar_perform linea =
     (if contiene ''PERFORM'' (upper linea) then
        (let partes = split (upper (strip linea)) in
         case list_index partes ''PERFORM'' of
           Inl e \<Rightarrow> None
         | Inr idx \<Rightarrow>
            (case list_item partes (idx + 1) of
               Inl e \<Rightarrow> None
             | Inr parte \<Rightarrow>
                 (let destino = rstrip_punto parte in
                  if destino \<in> set palabras_no_destino then None else Some destino)))
      else None)"

section \<open>Regular expressions\<close>

text \<open>
  The detectors are written with Python's \<^verbatim>\<open>re\<close> module, a backtracking matcher. The
  patterns of the program use literal text, character classes under a quantifier,
  the word boundary \<^verbatim>\<open>\b\<close>, the anchor \<^verbatim>\<open>^\<close>, one capturing group and alternatives
  of plain sequences. A pattern is a list of pieces; a state of the matcher is the text
  before the position, the text captured so far by group 1, and the text from the
  position on. Matching returns every way to match, in the order in which the
  backtracking matcher tries them, so that the first element is the match Python
  reports.
\<close>

text \<open>The class \<^verbatim>\<open>\w\<close> on the Latin-1 range: \<^verbatim>\<open>str.isalnum\<close> or the underscore.\<close>

definition es_palabra :: "char \<Rightarrow> bool" where
  "es_palabra c =
     (let n = cp c in
      (48 \<le> n \<and> n \<le> 57) \<or> (65 \<le> n \<and> n \<le> 90) \<or> n = 95 \<or> (97 \<le> n \<and> n \<le> 122)
      \<or> n = 170 \<or> n = 178 \<or> n = 179 \<or> n = 181 \<or> n = 185 \<or> n = 186
      \<or> (188 \<le> n \<and> n \<le> 190) \<or> (192 \<le> n \<and> n \<le> 214) \<or> (216 \<le> n \<and> n \<le> 246)
      \<or> 248 \<le> n)"

datatype modo = Voraz | Perezoso

text \<open>
  \<^verbatim>\<open>Rep P lo hi m g\<close> is a character class \<^verbatim>\<open>P\<close> repeated between \<^verbatim>\<open>lo\<close> and \<^verbatim>\<open>hi\<close>
  times (\<^verbatim>\<open>None\<close>: unbounded), greedy (\<^verbatim>\<open>Voraz\<close>) or lazy (\<^verbatim>\<open>Perezoso\<close>); \<^verbatim>\<open>g\<close> tells
  whether it stands inside the capturing group. \<^verbatim>\<open>LitI\<close> is literal text under
  \<^verbatim>\<open>re.IGNORECASE\<close>: a character of the text matches a character of the pattern when
  the two have the same lower case.
\<close>

datatype atomo =
    Inicio
  | Borde
  | Lit string
  | LitI string
  | Rep "char \<Rightarrow> bool" nat "nat option" modo bool

datatype pieza = At atomo | Alt "atomo list list"

type_synonym estado = "string \<times> string \<times> string"

definition borde :: "string \<Rightarrow> string \<Rightarrow> bool" where
  "borde antes resto =
     ((antes \<noteq> [] \<and> es_palabra (last antes)) \<noteq> (resto \<noteq> [] \<and> es_palabra (hd resto)))"

text \<open>The repetition counts a quantified class tries, in the order it tries them.\<close>

definition cuentas :: "(char \<Rightarrow> bool) \<Rightarrow> nat \<Rightarrow> nat option \<Rightarrow> modo \<Rightarrow> string \<Rightarrow> nat list" where
  "cuentas P lo hi m s =
     (let n = length (takeWhile P s);
          kmax = (case hi of None \<Rightarrow> n | Some h \<Rightarrow> min n h);
          ks = [lo ..< Suc kmax]
      in case m of Voraz \<Rightarrow> rev ks | Perezoso \<Rightarrow> ks)"

fun casa_atomo :: "atomo \<Rightarrow> estado \<Rightarrow> estado list" where
  "casa_atomo Inicio (antes, grupo, resto) = (if antes = [] then [(antes, grupo, resto)] else [])"
| "casa_atomo Borde (antes, grupo, resto) =
     (if borde antes resto then [(antes, grupo, resto)] else [])"
| "casa_atomo (Lit l) (antes, grupo, resto) =
     (if take (length l) resto = l then [(antes @ l, grupo, drop (length l) resto)] else [])"
| "casa_atomo (LitI l) (antes, grupo, resto) =
     (if map lower_char (take (length l) resto) = map lower_char l
      then [(antes @ take (length l) resto, grupo, drop (length l) resto)] else [])"
| "casa_atomo (Rep P lo hi m en_grupo) (antes, grupo, resto) =
     map (\<lambda>k. (antes @ take k resto,
                if en_grupo then grupo @ take k resto else grupo,
                drop k resto))
         (cuentas P lo hi m resto)"

fun casa_atomos :: "atomo list \<Rightarrow> estado \<Rightarrow> estado list" where
  "casa_atomos [] e = [e]"
| "casa_atomos (a # as) e = concat (map (casa_atomos as) (casa_atomo a e))"

fun casa_pieza :: "pieza \<Rightarrow> estado \<Rightarrow> estado list" where
  "casa_pieza (At a) e = casa_atomo a e"
| "casa_pieza (Alt alts) e = concat (map (\<lambda>as. casa_atomos as e) alts)"

fun casa :: "pieza list \<Rightarrow> estado \<Rightarrow> estado list" where
  "casa [] e = [e]"
| "casa (p # ps) e = concat (map (casa ps) (casa_pieza p e))"

definition primera :: "'a list \<Rightarrow> 'a option" where
  "primera xs = (case xs of [] \<Rightarrow> None | x # _ \<Rightarrow> Some x)"

text \<open>\<^verbatim>\<open>re.match\<close> tries the start of the text only; \<^verbatim>\<open>re.search\<close> tries every start
  position from left to right.\<close>

definition re_match :: "pieza list \<Rightarrow> string \<Rightarrow> estado option" where
  "re_match ps s = primera (casa ps ([], [], s))"

fun re_search_desde :: "pieza list \<Rightarrow> string \<Rightarrow> string \<Rightarrow> estado option" where
  "re_search_desde ps antes [] = primera (casa ps (antes, [], []))"
| "re_search_desde ps antes (c # s) =
     (case primera (casa ps (antes, [], c # s)) of
        Some e \<Rightarrow> Some e
      | None \<Rightarrow> re_search_desde ps (antes @ [c]) s)"

definition re_search :: "pieza list \<Rightarrow> string \<Rightarrow> estado option" where
  "re_search ps s = re_search_desde ps [] s"

text \<open>
  \<^verbatim>\<open>re.finditer\<close>, giving group 1 of each match: the next search starts where the last
  match ended. Every pattern the program hands to \<^verbatim>\<open>finditer\<close> begins with a literal
  word, so a match is never empty and the text left always gets shorter; the test on
  the lengths only tells the definition so.
\<close>

function re_finditer_desde :: "pieza list \<Rightarrow> string \<Rightarrow> string \<Rightarrow> string list" where
  "re_finditer_desde ps antes s =
     (case re_search_desde ps antes s of
        None \<Rightarrow> []
      | Some (antes', grupo, resto) \<Rightarrow>
          if length resto < length s then grupo # re_finditer_desde ps antes' resto
          else [grupo])"
  by pat_completeness auto
termination
  by (relation "measure (\<lambda>(ps, antes, s). length s)") auto

definition re_finditer :: "pieza list \<Rightarrow> string \<Rightarrow> string list" where
  "re_finditer ps s = re_finditer_desde ps [] s"

section \<open>The paragraph analyser: SQL blocks\<close>

definition no_salto :: "char \<Rightarrow> bool" where
  "no_salto c = (c \<noteq> CHR 0x0A)"

text \<open>\<^verbatim>\<open>SELECT .*?FROM\s+(\w+)\<close>\<close>

definition rx_select :: "pieza list" where
  "rx_select = [At (LitI ''SELECT ''), At (Rep no_salto 0 None Perezoso False), At (LitI ''FROM''),
                At (Rep isspace 1 None Voraz False), At (Rep es_palabra 1 None Voraz True)]"

text \<open>\<^verbatim>\<open>INSERT\s+INTO\s+(\w+)\<close>\<close>

definition rx_insert :: "pieza list" where
  "rx_insert = [At (LitI ''INSERT''), At (Rep isspace 1 None Voraz False), At (LitI ''INTO''),
                At (Rep isspace 1 None Voraz False), At (Rep es_palabra 1 None Voraz True)]"

text \<open>\<^verbatim>\<open>UPDATE\s+(\w+)\<close>\<close>

definition rx_update :: "pieza list" where
  "rx_update = [At (LitI ''UPDATE''),
                At (Rep isspace 1 None Voraz False), At (Rep es_palabra 1 None Voraz True)]"

text \<open>\<^verbatim>\<open>DELETE\s+FROM\s+(\w+)\<close>\<close>

definition rx_delete :: "pieza list" where
  "rx_delete = [At (LitI ''DELETE''), At (Rep isspace 1 None Voraz False), At (LitI ''FROM''),
                At (Rep isspace 1 None Voraz False), At (Rep es_palabra 1 None Voraz True)]"

text \<open>\<^verbatim>\<open>OPEN\s+(\w+)\<close>, \<^verbatim>\<open>CLOSE\s+(\w+)\<close>, \<^verbatim>\<open>FETCH\s+(\w+)\<close>\<close>

definition rx_open :: "pieza list" where
  "rx_open = [At (LitI ''OPEN''),
              At (Rep isspace 1 None Voraz False), At (Rep es_palabra 1 None Voraz True)]"

definition rx_close :: "pieza list" where
  "rx_close = [At (LitI ''CLOSE''),
               At (Rep isspace 1 None Voraz False), At (Rep es_palabra 1 None Voraz True)]"

definition rx_fetch :: "pieza list" where
  "rx_fetch = [At (LitI ''FETCH''),
               At (Rep isspace 1 None Voraz False), At (Rep es_palabra 1 None Voraz True)]"

definition extraer_sentencias_sql :: "string \<Rightarrow> (string \<times> string) list" where
  "extraer_sentencias_sql bloque_sql0 =
     (let bloque_sql = upper bloque_sql0 in
        map (\<lambda>g. (''SELECT'', g)) (re_finditer rx_select bloque_sql)
      @ map (\<lambda>g. (''INSERT'', g)) (re_finditer rx_insert bloque_sql)
      @ map (\<lambda>g. (''UPDATE'', g)) (re_finditer rx_update bloque_sql)
      @ map (\<lambda>g. (''DELETE'', g)) (re_finditer rx_delete bloque_sql)
      @ map (\<lambda>g. (''OPEN CURSOR'', g)) (re_finditer rx_open bloque_sql)
      @ map (\<lambda>g. (''CLOSE CURSOR'', g)) (re_finditer rx_close bloque_sql)
      @ map (\<lambda>g. (''FETCH CURSOR'', g)) (re_finditer rx_fetch bloque_sql)
      @ (if contiene ''COMMIT'' bloque_sql then [(''COMMIT'', [])] else [])
      @ (if contiene ''ROLLBACK'' bloque_sql then [(''ROLLBACK'', [])] else []))"

text \<open>
  The reading loop of \<^verbatim>\<open>procesar_bloque_sql\<close>: it takes lines from the open file until
  one contains \<^verbatim>\<open>END-EXEC\<close> or the file ends, and returns the stripped lines with the
  lines of the file left for the caller's loop, which shares the iterator.
\<close>

fun leer_bloque :: "string list \<Rightarrow> string list \<times> string list" where
  "leer_bloque [] = ([], [])"
| "leer_bloque (linea # archivo) =
     (if contiene ''END-EXEC'' (upper linea) then ([strip linea], archivo)
      else (case leer_bloque archivo of (bloque_sql, archivo') \<Rightarrow> (strip linea # bloque_sql, archivo')))"

fun join :: "string \<Rightarrow> string list \<Rightarrow> string" where
  "join sep [] = []"
| "join sep [x] = x"
| "join sep (x # y # ys) = x @ sep @ join sep (y # ys)"

definition anotar :: "string \<Rightarrow> string list dict \<Rightarrow> (string \<times> string) \<Rightarrow> string list dict" where
  "anotar parrafo_actual selects_por_parrafo s =
     (case s of (tipo, tabla) \<Rightarrow> dict_append selects_por_parrafo parrafo_actual (tipo @ '' ... '' @ tabla))"

definition procesar_bloque_sql ::
    "string list \<Rightarrow> string \<Rightarrow> string list dict \<Rightarrow> string list \<times> string list dict" where
  "procesar_bloque_sql archivo parrafo_actual selects_por_parrafo =
     (case leer_bloque archivo of (bloque_sql, archivo') \<Rightarrow>
        (archivo',
         foldl (anotar parrafo_actual) selects_por_parrafo
               (extraer_sentencias_sql (upper (join '' '' bloque_sql)))))"

section \<open>The paragraph analyser: paragraph detector\<close>

text \<open>The classes \<^verbatim>\<open>[A-Z0-9]\<close> and \<^verbatim>\<open>[A-Z0-9-]\<close> under \<^verbatim>\<open>re.IGNORECASE\<close>.\<close>

definition es_alnum_i :: "char \<Rightarrow> bool" where
  "es_alnum_i c = (es_mayuscula_ascii c \<or> es_minuscula_ascii c \<or> es_digito_ascii c)"

definition es_nombre_i :: "char \<Rightarrow> bool" where
  "es_nombre_i c = (es_alnum_i c \<or> c = CHR ''-'')"

text \<open>\<^verbatim>\<open>^\s*([A-Z0-9][A-Z0-9-]{0,60})\s*(?:\.|\bSECTION\b)\<close> with \<^verbatim>\<open>re.IGNORECASE\<close>\<close>

definition rx_parrafo :: "pieza list" where
  "rx_parrafo =
     [At Inicio, At (Rep isspace 0 None Voraz False),
      At (Rep es_alnum_i 1 (Some 1) Voraz True), At (Rep es_nombre_i 0 (Some 60) Voraz True),
      At (Rep isspace 0 None Voraz False),
      Alt [[Lit ''.''], [Borde, LitI ''SECTION'', Borde]]]"

definition sentencias_iniciales :: "string list" where
  "sentencias_iniciales = [''PERFORM '', ''IF '', ''ELSE '', ''EVALUATE '', ''MOVE '', ''SET '']"

definition excluidos :: "string list" where
  "excluidos =
     [''VARYING'', ''UNTIL'', ''WITH'', ''END-IF'', ''END-EXEC'', ''STOP'', ''STOP-RUN'',
      ''EXIT'', ''CONTINUE'', ''PERFORM'', ''EVALUATE'', ''IF'', ''ELSE'', ''MOVE'', ''SET'']"

text \<open>\<^verbatim>\<open>code_area = linea[7:] if len(linea) > 7 else linea.lstrip()\<close>\<close>

definition area_de_codigo :: "string \<Rightarrow> string" where
  "area_de_codigo linea = (if length linea > 7 then drop 7 linea else lstrip linea)"

definition detectar_parrafo :: "string \<Rightarrow> string option" where
  "detectar_parrafo linea =
     (if linea = [] \<or> strip linea = [] then None
      else if length linea \<ge> 7 \<and> linea ! 6 = CHR ''*'' then None
      else let code_area = area_de_codigo linea in
        if \<exists>k \<in> set sentencias_iniciales. prefix k (upper (strip code_area)) then None
        else (case re_match rx_parrafo code_area of
                None \<Rightarrow> None
              | Some (antes, grupo, resto) \<Rightarrow>
                  (let posible_parrafo = strip grupo in
                   if upper posible_parrafo \<in> set excluidos then None
                   else Some posible_parrafo)))"

section \<open>The paragraph analyser: the scan\<close>

text \<open>
  The local variables of \<^verbatim>\<open>analizar_cobol\<close> that the loop changes (the fields carry
  the prefix \<^verbatim>\<open>sc_\<close>).
  \<^verbatim>\<open>esperar_punto_despues_de_proc\<close> is unbound (\<^verbatim>\<open>None\<close>) until the header is seen; the
  code asks \<^verbatim>\<open>in locals()\<close> before it reads it.
\<close>

record escaneo =
  sc_llamadas :: grafo
  sc_selects_por_parrafo :: "string list dict"
  sc_en_procedure_division :: bool
  sc_esperar_punto_despues_de_proc :: "bool option"
  sc_parrafo_actual :: string
  sc_bloque_sql_count :: nat

definition escaneo_inicial :: escaneo where
  "escaneo_inicial =
     \<lparr>sc_llamadas = [], sc_selects_por_parrafo = [], sc_en_procedure_division = False,
      sc_esperar_punto_despues_de_proc = None, sc_parrafo_actual = ''__START__'',
      sc_bloque_sql_count = 0\<rparr>"

text \<open>The truth value Python gives to a result that is \<^verbatim>\<open>None\<close> or a string, and the
  string itself.\<close>

definition verdadero :: "string option \<Rightarrow> bool" where
  "verdadero v = (case v of None \<Rightarrow> False | Some s \<Rightarrow> s \<noteq> [])"

definition texto :: "string option \<Rightarrow> string" where
  "texto v = (case v of None \<Rightarrow> [] | Some s \<Rightarrow> s)"

text \<open>
  The \<^verbatim>\<open>for linea in archivo\<close> loop, on the lines still to be read. The tests are in
  the order of the source: ignorable line, start of an SQL block (when SQL analysis is
  on), the header of the PROCEDURE DIVISION, the wait for the period that ends the
  header, paragraph label, PERFORM.
\<close>

function escanear :: "bool \<Rightarrow> escaneo \<Rightarrow> string list \<Rightarrow> escaneo" where
  "escanear analizar_sql e [] = e"
| "escanear analizar_sql e (linea0 # archivo) =
     (let linea = upper linea0 in
      if es_linea_ignorable linea then escanear analizar_sql e archivo
      else if analizar_sql \<and> contiene ''EXEC SQL'' (upper linea) then
        (case procesar_bloque_sql archivo (sc_parrafo_actual e) (sc_selects_por_parrafo e) of
           (archivo', selects') \<Rightarrow>
             escanear analizar_sql
               (e\<lparr>sc_bloque_sql_count := sc_bloque_sql_count e + 1,
                  sc_selects_por_parrafo := selects'\<rparr>)
               archivo')
      else if \<not> sc_en_procedure_division e then
        (if contiene ''PROCEDURE DIVISION'' (upper linea) then
           escanear analizar_sql
             (e\<lparr>sc_en_procedure_division := True,
                sc_esperar_punto_despues_de_proc := Some (\<not> contiene ''.'' linea)\<rparr>)
             archivo
         else escanear analizar_sql e archivo)
      else if sc_esperar_punto_despues_de_proc e = Some True then
        (if contiene ''.'' linea then
           escanear analizar_sql (e\<lparr>sc_esperar_punto_despues_de_proc := Some False\<rparr>) archivo
         else escanear analizar_sql e archivo)
      else
        (let nuevo_parrafo = detectar_parrafo linea in
         if verdadero nuevo_parrafo then
           escanear analizar_sql
             (e\<lparr>sc_parrafo_actual := texto nuevo_parrafo,
                sc_llamadas := (if texto nuevo_parrafo \<notin> set (claves (sc_llamadas e))
                                then sc_llamadas e @ [(texto nuevo_parrafo, [])]
                                else sc_llamadas e)\<rparr>)
             archivo
         else if sc_parrafo_actual e \<noteq> [] then
           (let destino = detectar_perform linea in
            if verdadero destino then
              escanear analizar_sql
                (e\<lparr>sc_llamadas := dict_append (sc_llamadas e) (sc_parrafo_actual e) (texto destino)\<rparr>)
                archivo
            else escanear analizar_sql e archivo)
         else escanear analizar_sql e archivo))"
  by pat_completeness auto
termination
proof -
  have corto: "length (snd (leer_bloque a)) < Suc (length a)" for a
    by (induction a) (auto split: prod.splits)
  have menor: "length archivo' < Suc (length archivo)"
    if "(archivo', selects') = procesar_bloque_sql archivo p sel"
    for archivo archivo' :: "string list" and selects' p sel
    using that corto [of archivo] by (auto simp: procesar_bloque_sql_def split: prod.splits)
  show ?thesis
    by (relation "measure (\<lambda>(analizar_sql, e, archivo). length archivo)")
       (auto intro: menor)
qed

text \<open>
  \<^verbatim>\<open>analizar_cobol\<close> on the lines of the file (\<^verbatim>\<open>None\<close>: the file could not be opened).
  Any exception, also the \<^verbatim>\<open>KeyError\<close> of the filter, is caught and the function
  returns \<^verbatim>\<open>({}, 0, {})\<close>. The lines it prints for debugging are left out.
\<close>

definition analizar_cobol ::
    "string list option \<Rightarrow> string option \<Rightarrow> bool \<Rightarrow> grafo \<times> nat \<times> string list dict" where
  "analizar_cobol archivo parrafo_inicio analizar_sql =
     (case archivo of
        None \<Rightarrow> ([], 0, [])
      | Some lineas \<Rightarrow>
         (let e = escanear analizar_sql escaneo_inicial lineas in
          case (if verdadero parrafo_inicio
                then snd (filtrar_desde_parrafo_inicio (sc_llamadas e) (texto parrafo_inicio))
                else Inr (sc_llamadas e)) of
            Inl excepcion \<Rightarrow> ([], 0, [])
          | Inr llamadas' \<Rightarrow>
              (llamadas', sc_bloque_sql_count e,
               if analizar_sql
               then filter (\<lambda>(k, v). k \<in> set (claves llamadas') \<or> k = ''__START__'')
                           (sc_selects_por_parrafo e)
               else [])))"

definition nl :: string where
  "nl = [CHR 0x0A]"

section \<open>The paragraph analyser: tree serializer\<close>

definition indentacion :: "nat \<Rightarrow> string" where
  "indentacion nivel = concat (replicate nivel ''   '')"

definition mensaje_vacio :: string where
  "mensaje_vacio = ''Diccionario vacio. No hay llamadas que mostrar.'' @ nl"

text \<open>
  The loop \<^verbatim>\<open>for hijo in diccionario.get(nodo, []): if hijo not in visitados: ...\<close>,
  with the recursive call as a parameter; a call that does not return makes the loop
  not return.
\<close>

fun para_cada_hijo :: "(string \<Rightarrow> 'a option) \<Rightarrow> string set \<Rightarrow> string list \<Rightarrow> 'a list option" where
  "para_cada_hijo llamada visitados [] = Some []"
| "para_cada_hijo llamada visitados (hijo # hijos) =
     (if hijo \<notin> visitados then
        (case llamada hijo of
           None \<Rightarrow> None
         | Some r \<Rightarrow>
            (case para_cada_hijo llamada visitados hijos of
               None \<Rightarrow> None
             | Some rs \<Rightarrow> Some (r # rs)))
      else para_cada_hijo llamada visitados hijos)"

text \<open>
  \<^verbatim>\<open>imprimir_arbol_llamadas\<close> returns the lines it prints (and writes to \<^verbatim>\<open>archivo\<close>).
  The recursion of the source has no bound of its own, so the model counts the depth
  it may still use: \<^verbatim>\<open>None\<close> says that the depth given did not suffice. Each call
  gets a copy of \<^verbatim>\<open>visitados\<close>, so what a call adds is not seen by its caller.
\<close>

primrec imprimir_arbol_llamadas ::
    "nat \<Rightarrow> grafo \<Rightarrow> string list dict \<Rightarrow> string \<Rightarrow> nat \<Rightarrow> string set option \<Rightarrow> string list option" where
  "imprimir_arbol_llamadas 0 diccionario selects nodo0 nivel visitados0 = None"
| "imprimir_arbol_llamadas (Suc fuel) diccionario selects nodo0 nivel visitados0 =
     (if nodo0 = [] \<and> diccionario = [] then Some [mensaje_vacio]
      else
        let nodo = (if nodo0 = [] then fst (hd diccionario) else nodo0);
            visitados = insert nodo (case visitados0 of None \<Rightarrow> {} | Some v \<Rightarrow> v)
        in case para_cada_hijo
                  (\<lambda>hijo. imprimir_arbol_llamadas fuel diccionario selects hijo (nivel + 1)
                             (Some visitados))
                  visitados (dict_get diccionario nodo []) of
             None \<Rightarrow> None
           | Some salidas \<Rightarrow>
               Some ((indentacion nivel @ nodo)
                     # map (\<lambda>sel. indentacion nivel @ ''   - '' @ sel) (dict_get selects nodo [])
                     @ concat salidas))"

text \<open>
  The tree of the calls \<^verbatim>\<open>imprimir_arbol_llamadas\<close> makes: one node for each call that
  prints a name, with the calls it makes in turn as children. \<^verbatim>\<open>lineas\<close> writes such a
  tree as the serializer does, and \<^verbatim>\<open>caminos\<close> lists, for every node of the tree, the
  names from the root down to it.
\<close>

datatype arbol = Nodo string "arbol list"

primrec arbol_llamadas :: "nat \<Rightarrow> grafo \<Rightarrow> string \<Rightarrow> string set option \<Rightarrow> arbol option" where
  "arbol_llamadas 0 diccionario nodo0 visitados0 = None"
| "arbol_llamadas (Suc fuel) diccionario nodo0 visitados0 =
     (let nodo = (if nodo0 = [] then fst (hd diccionario) else nodo0);
          visitados = insert nodo (case visitados0 of None \<Rightarrow> {} | Some v \<Rightarrow> v)
      in case para_cada_hijo (\<lambda>hijo. arbol_llamadas fuel diccionario hijo (Some visitados))
                visitados (dict_get diccionario nodo []) of
           None \<Rightarrow> None
         | Some hijos \<Rightarrow> Some (Nodo nodo hijos))"

fun lineas :: "string list dict \<Rightarrow> nat \<Rightarrow> arbol \<Rightarrow> string list" where
  "lineas selects nivel (Nodo nodo hijos) =
     (indentacion nivel @ nodo)
     # map (\<lambda>sel. indentacion nivel @ ''   - '' @ sel) (dict_get selects nodo [])
     @ concat (map (lineas selects (nivel + 1)) hijos)"

fun caminos :: "arbol \<Rightarrow> string list list" where
  "caminos (Nodo nodo hijos) = [nodo] # map ((#) nodo) (concat (map caminos hijos))"

text \<open>A simple path of the graph: no name twice, each step an edge.\<close>

definition camino_simple :: "grafo \<Rightarrow> string list \<Rightarrow> bool" where
  "camino_simple g p =
     (p \<noteq> [] \<and> distinct p
      \<and> (\<forall>i. Suc i < length p \<longrightarrow> p ! Suc i \<in> set (dict_get g (p ! i) [])))"

definition destinos :: "grafo \<Rightarrow> string set" where
  "destinos g = (\<Union>(k, ds) \<in> set g. set ds)"

section \<open>The call analyser\<close>

definition es_comilla :: "char \<Rightarrow> bool" where
  "es_comilla c = (c = CHR 0x27 \<or> c = CHR 0x22)"

definition es_palabra_o_guion :: "char \<Rightarrow> bool" where
  "es_palabra_o_guion c = (es_palabra c \<or> c = CHR ''-'')"

text \<open>\<^verbatim>\<open>\bCALL\s+['\"]?([\w-]+)['\"]?\<close>\<close>

definition rx_call :: "pieza list" where
  "rx_call =
     [At Borde, At (Lit ''CALL''), At (Rep isspace 1 None Voraz False),
      At (Rep es_comilla 0 (Some 1) Voraz False),
      At (Rep es_palabra_o_guion 1 None Voraz True),
      At (Rep es_comilla 0 (Some 1) Voraz False)]"

text \<open>\<^verbatim>\<open>EXEC\s+CICS\s+(?:LINK|START|INVOKE)\s+PROGRAM\s*\(['\"]?([\w-]+)['\"]?\)\<close>\<close>

definition rx_cics :: "pieza list" where
  "rx_cics =
     [At (Lit ''EXEC''), At (Rep isspace 1 None Voraz False),
      At (Lit ''CICS''), At (Rep isspace 1 None Voraz False),
      Alt [[Lit ''LINK''], [Lit ''START''], [Lit ''INVOKE'']],
      At (Rep isspace 1 None Voraz False),
      At (Lit ''PROGRAM''), At (Rep isspace 0 None Voraz False), At (Lit ''(''),
      At (Rep es_comilla 0 (Some 1) Voraz False),
      At (Rep es_palabra_o_guion 1 None Voraz True),
      At (Rep es_comilla 0 (Some 1) Voraz False),
      At (Lit '')'')]"

text \<open>\<^verbatim>\<open>detectar_call\<close> of \<^verbatim>\<open>RoadMapCalls.py\<close> and \<^verbatim>\<open>RoadMapCalls.01.py\<close> (the two files
  have the same text for the three functions modelled here).\<close>

definition detectar_call :: "string \<Rightarrow> string option" where
  "detectar_call linea0 =
     (let linea = upper linea0 in
      case re_search rx_call linea of
        Some (antes, grupo, resto) \<Rightarrow> Some grupo
      | None \<Rightarrow>
         (case re_search rx_cics linea of
            Some (antes, grupo, resto) \<Rightarrow> Some (''CICS-'' @ grupo)
          | None \<Rightarrow> None))"

text \<open>\<^verbatim>\<open>return not linea.strip() or (len(linea) > 6 and linea[6] == '*')\<close>\<close>

definition es_linea_ignorable_calls :: "string \<Rightarrow> bool" where
  "es_linea_ignorable_calls linea =
     (strip linea = [] \<or> (length linea > 6 \<and> linea ! 6 = CHR ''*''))"

text \<open>
  \<^verbatim>\<open>os.path.basename\<close> and \<^verbatim>\<open>os.path.splitext\<close> as \<^verbatim>\<open>posixpath\<close> defines them: the base
  name is what follows the last slash; the extension starts at the last dot, unless
  only dots stand between the last slash and it.
\<close>

fun rfind :: "char \<Rightarrow> string \<Rightarrow> nat option" where
  "rfind c [] = None"
| "rfind c (x # xs) =
     (case rfind c xs of
        Some i \<Rightarrow> Some (Suc i)
      | None \<Rightarrow> if x = c then Some 0 else None)"

definition basename :: "string \<Rightarrow> string" where
  "basename p = (case rfind (CHR ''/'') p of None \<Rightarrow> p | Some i \<Rightarrow> drop (Suc i) p)"

definition splitext :: "string \<Rightarrow> string \<times> string" where
  "splitext p =
     (case rfind (CHR ''.'') p of
        None \<Rightarrow> (p, [])
      | Some dot \<Rightarrow>
          (let ini = (case rfind (CHR ''/'') p of None \<Rightarrow> 0 | Some sep \<Rightarrow> Suc sep) in
           if ini \<le> dot \<and> list_ex (\<lambda>i. p ! i \<noteq> CHR ''.'') [ini ..< dot]
           then (take dot p, drop dot p) else (p, [])))"

text \<open>The loop of the call analyser's \<^verbatim>\<open>analizar_cobol\<close>; \<^verbatim>\<open>llamadas\<close> is a
  \<^verbatim>\<open>defaultdict(list)\<close>, so the first append creates the entry.\<close>

fun recorrer_lineas :: "string \<Rightarrow> grafo \<Rightarrow> string list \<Rightarrow> grafo" where
  "recorrer_lineas origen llamadas [] = llamadas"
| "recorrer_lineas origen llamadas (linea0 # archivo) =
     (if es_linea_ignorable_calls (upper linea0) then recorrer_lineas origen llamadas archivo
      else if verdadero (detectar_call (upper linea0))
        then recorrer_lineas origen
               (dict_append llamadas origen (upper (texto (detectar_call (upper linea0)))))
               archivo
      else recorrer_lineas origen llamadas archivo)"

text \<open>\<^verbatim>\<open>None\<close> for the file: \<^verbatim>\<open>open\<close> raised; the exception is caught and the empty
  dictionary returned.\<close>

definition analizar_cobol_calls :: "string \<Rightarrow> string list option \<Rightarrow> grafo" where
  "analizar_cobol_calls ruta_archivo archivo =
     (case archivo of
        None \<Rightarrow> []
      | Some lineas_archivo \<Rightarrow>
          recorrer_lineas (upper (fst (splitext (basename ruta_archivo)))) [] lineas_archivo)"

section \<open>Filter and line classifier\<close>

text \<open>
  C3, at the code: \<^verbatim>\<open>es_linea_ignorable\<close> of the paragraph analyser does not treat a
  blank line as ignorable. A blank line as the file iterator yields it is the single
  line terminator; a line of three spaces is not ignorable either, while the empty
  string and a comment line are. The call-analyser's function of the same name tests
  \<^verbatim>\<open>not linea.strip()\<close> instead.
\<close>

theorem es_linea_ignorable_blank_line:
  "\<not> es_linea_ignorable [CHR 0x0A] \<and> \<not> es_linea_ignorable ''   ''
   \<and> es_linea_ignorable [] \<and> es_linea_ignorable ''000100* NOTE''"
  by (simp add: es_linea_ignorable_def)

text \<open>
  C8: when the start name is not a key of the graph, \<^verbatim>\<open>filtrar_desde_parrafo_inicio\<close>
  prints the message that the paragraph does not exist and returns the empty
  dictionary; it raises nothing.
\<close>

theorem filtrar_start_missing:
  assumes "parrafo_inicio \<notin> set (claves llamadas)"
  shows "filtrar_desde_parrafo_inicio llamadas parrafo_inicio
           = ([mensaje_no_existe parrafo_inicio], Inr [])"
  using assms by (simp add: filtrar_desde_parrafo_inicio_def)

theorem filtrar_start_missing_witness:
  "''NOPE'' \<notin> set (claves [(''A'', [''B'']), (''B'', [''A''])])
   \<and> filtrar_desde_parrafo_inicio [(''A'', [''B'']), (''B'', [''A''])] ''NOPE''
       = ([''El parrafo '' @ [CHR 0x27] @ ''NOPE'' @ [CHR 0x27] @ '' no existe en el archivo''], Inr [])"
proof -
  have h: "''NOPE'' \<notin> set (claves [(''A'', [''B'']), (''B'', [''A''])])"
    by (simp add: claves_def)
  show ?thesis
    using h filtrar_start_missing [OF h] by (simp add: mensaje_no_existe_def)
qed

text \<open>
  C1, at the code: on the graph where \<^verbatim>\<open>A\<close> performs \<^verbatim>\<open>B\<close> and \<^verbatim>\<open>B\<close> performs \<^verbatim>\<open>C\<close>
  (\<^verbatim>\<open>C\<close> has no entry of its own), filtering from \<^verbatim>\<open>A\<close> returns the single entry
  \<^verbatim>\<open>A\<close> with \<^verbatim>\<open>B\<close> listed twice, and the reachable node \<^verbatim>\<open>C\<close> is nowhere in the
  result. When \<^verbatim>\<open>C\<close> has an entry too, the function raises \<^verbatim>\<open>KeyError\<close> at
  \<^verbatim>\<open>resultado['B']\<close> and returns no graph at all.
\<close>

theorem filtrar_loses_reachable_node:
  "filtrar_desde_parrafo_inicio [(''A'', [''B'']), (''B'', [''C''])] ''A''
     = ([], Inr [(''A'', [''B'', ''B''])])
   \<and> ''C'' \<notin> nodos [(''A'', [''B'', ''B''])]
   \<and> filtrar_desde_parrafo_inicio [(''A'', [''B'']), (''B'', [''C'']), (''C'', [])] ''A''
     = ([], Inl (KeyError ''B''))"
  by (simp add: filtrar_desde_parrafo_inicio_def claves_def dict_get_def nodos_def)

section \<open>Facts about text\<close>

lemma cp_less: "cp c < 256"
  by (simp add: cp_def)

lemma cp_char_of: "n < 256 \<Longrightarrow> cp (char_of n) = n"
  by (simp add: cp_def)

lemma upper_char_cases:
  "upper_char c = ''SS'' \<or> (\<exists>d. upper_char c = [d] \<and> isspace d = isspace c)"
proof -
  have "cp c < 256" by (rule cp_less)
  then show ?thesis
    by (auto simp: isspace_def upper_char_def Let_def cp_char_of)
qed

lemma isspace_upper_char: "isspace c \<Longrightarrow> upper_char c = [c]"
  by (auto simp: isspace_def upper_char_def Let_def)

lemma upper_char_no_blanco:
  "\<not> isspace c \<Longrightarrow> upper_char c \<noteq> [] \<and> (\<forall>d \<in> set (upper_char c). \<not> isspace d)"
proof -
  have s: "\<not> isspace (CHR ''S'')" by (simp add: isspace_def cp_def)
  assume "\<not> isspace c"
  with s show ?thesis using upper_char_cases [of c] by auto
qed

lemma rev_upper_char: "rev (upper_char c) = upper_char c"
  using upper_char_cases [of c] by auto

lemma upper_append: "upper (a @ b) = upper a @ upper b"
  by (simp add: upper_def)

lemma upper_rev: "upper (rev s) = rev (upper s)"
  by (induction s) (simp_all add: upper_def rev_upper_char)

lemma upper_dropWhile: "upper (dropWhile isspace s) = dropWhile isspace (upper s)"
proof (induction s)
  case Nil
  then show ?case by (simp add: upper_def)
next
  case (Cons c s)
  show ?case
  proof (cases "isspace c")
    case True
    then show ?thesis using Cons by (simp add: upper_def isspace_upper_char)
  next
    case False
    from upper_char_no_blanco [OF False] obtain d ds
      where d: "upper_char c = d # ds" "\<not> isspace d"
      by (cases "upper_char c") auto
    with False show ?thesis by (simp add: upper_def)
  qed
qed

lemma upper_lstrip: "upper (lstrip s) = lstrip (upper s)"
  by (simp add: lstrip_def upper_dropWhile)

lemma upper_rstrip: "upper (rstrip s) = rstrip (upper s)"
  by (simp add: rstrip_def upper_rev upper_dropWhile)

lemma upper_strip: "upper (strip s) = strip (upper s)"
  by (simp add: strip_def upper_lstrip upper_rstrip)

lemma rstrip_decomp: "\<exists>ws. s = rstrip s @ ws \<and> (\<forall>c \<in> set ws. isspace c)"
proof -
  have "rev s = takeWhile isspace (rev s) @ dropWhile isspace (rev s)" by simp
  then have "s = rev (dropWhile isspace (rev s)) @ rev (takeWhile isspace (rev s))"
    by (metis rev_append rev_rev_ident)
  moreover have "\<forall>c \<in> set (rev (takeWhile isspace (rev s))). isspace c"
    by (auto dest: set_takeWhileD)
  ultimately show ?thesis unfolding rstrip_def by blast
qed

lemma contiene_iff: "contiene needle s \<longleftrightarrow> (\<exists>p q. s = p @ needle @ q)"
proof (induction s)
  case Nil
  then show ?case by auto
next
  case (Cons c s)
  show ?case
  proof
    assume "contiene needle (c # s)"
    then consider "prefix needle (c # s)" | "contiene needle s" by auto
    then show "\<exists>p q. c # s = p @ needle @ q"
    proof cases
      case 1
      then obtain q where "c # s = needle @ q" by (auto simp: prefix_def)
      then have "c # s = [] @ needle @ q" by simp
      then show ?thesis by blast
    next
      case 2
      with Cons obtain p q where "s = p @ needle @ q" by blast
      then have "c # s = (c # p) @ needle @ q" by simp
      then show ?thesis by blast
    qed
  next
    assume "\<exists>p q. c # s = p @ needle @ q"
    then obtain p q where pq: "c # s = p @ needle @ q" by blast
    show "contiene needle (c # s)"
    proof (cases p)
      case Nil
      with pq have "prefix needle (c # s)" by (simp add: prefix_def)
      then show ?thesis by simp
    next
      case (Cons c' p')
      with pq have "s = p' @ needle @ q" by simp
      with Cons.IH have "contiene needle s" by blast
      then show ?thesis by simp
    qed
  qed
qed

section \<open>PERFORM detector\<close>

lemma split_desde_blancos:
  "\<forall>c \<in> set ws. isspace c \<Longrightarrow> split_desde a ws = (if a = [] then [] else [a])"
  by (induction ws arbitrary: a) auto

lemma split_desde_lstrip: "split_desde [] (dropWhile isspace s) = split_desde [] s"
  by (induction s) auto

lemma split_desde_append_blancos:
  "\<forall>c \<in> set ws. isspace c \<Longrightarrow> split_desde a (s @ ws) = split_desde a s"
  by (induction s arbitrary: a) (auto simp: split_desde_blancos)

lemma split_strip: "split (strip s) = split s"
proof -
  obtain ws where ws: "lstrip s = rstrip (lstrip s) @ ws" "\<forall>c \<in> set ws. isspace c"
    using rstrip_decomp by blast
  have "split s = split_desde [] (lstrip s)"
    by (simp add: split_def lstrip_def split_desde_lstrip)
  also have "\<dots> = split_desde [] (rstrip (lstrip s) @ ws)" using ws(1) by simp
  also have "\<dots> = split_desde [] (rstrip (lstrip s))"
    using ws(2) by (rule split_desde_append_blancos)
  finally show ?thesis by (simp add: split_def strip_def)
qed

lemma split_desde_sublist:
  "t \<in> set (split_desde a s) \<Longrightarrow> \<exists>p q. a @ s = p @ t @ q"
proof (induction s arbitrary: a)
  case Nil
  then have "t = a" by (auto split: if_splits)
  then have "a @ [] = [] @ t @ []" by simp
  then show ?case by blast
next
  case (Cons c s)
  show ?case
  proof (cases "isspace c")
    case True
    then have "t = a \<or> t \<in> set (split_desde [] s)"
      using Cons.prems by (auto split: if_splits)
    then show ?thesis
    proof
      assume "t = a"
      then have "a @ c # s = [] @ t @ (c # s)" by simp
      then show ?thesis by blast
    next
      assume "t \<in> set (split_desde [] s)"
      then obtain p q where "[] @ s = p @ t @ q" using Cons.IH by blast
      then have "a @ c # s = (a @ c # p) @ t @ q" by simp
      then show ?thesis by blast
    qed
  next
    case False
    then have "t \<in> set (split_desde (a @ [c]) s)" using Cons.prems by simp
    then obtain p q where "(a @ [c]) @ s = p @ t @ q" using Cons.IH by blast
    then show ?thesis by auto
  qed
qed

lemma split_contiene: "t \<in> set (split s) \<Longrightarrow> contiene t s"
  using split_desde_sublist [of t "[]" s] by (simp add: split_def contiene_iff)

lemma list_index_absent: "x \<notin> set xs \<Longrightarrow> list_index xs x = Inl ValueError"
  by (induction xs) auto

lemma list_index_first: "x \<notin> set pre \<Longrightarrow> list_index (pre @ x # post) x = Inr (length pre)"
  by (induction pre) auto

lemma rstrip_punto_decomp:
  "\<exists>k. t = rstrip_punto t @ replicate k (CHR ''.'')"
proof -
  let ?p = "\<lambda>c. c = CHR ''.''"
  have "rev t = takeWhile ?p (rev t) @ dropWhile ?p (rev t)" by simp
  then have "t = rev (dropWhile ?p (rev t)) @ rev (takeWhile ?p (rev t))"
    by (metis rev_append rev_rev_ident)
  moreover have "replicate (length (rev (takeWhile ?p (rev t)))) (CHR ''.'') = rev (takeWhile ?p (rev t))"
    by (rule replicate_length_same) (auto dest: set_takeWhileD)
  ultimately show ?thesis unfolding rstrip_punto_def by metis
qed

lemma rstrip_punto_last: "rstrip_punto t \<noteq> [] \<Longrightarrow> last (rstrip_punto t) \<noteq> CHR ''.''"
proof -
  let ?p = "\<lambda>c. c = CHR ''.''"
  assume "rstrip_punto t \<noteq> []"
  then have ne: "dropWhile ?p (rev t) \<noteq> []" by (simp add: rstrip_punto_def)
  then have "\<not> ?p (hd (dropWhile ?p (rev t)))" by (rule hd_dropWhile)
  with ne show ?thesis by (simp add: rstrip_punto_def last_rev)
qed

text \<open>
  C5: with \<^verbatim>\<open>partes\<close> the whitespace-separated tokens of the upper-cased line,
  \<^verbatim>\<open>detectar_perform\<close> returns nothing when \<^verbatim>\<open>PERFORM\<close> is not a token or is the last
  token; otherwise, for the first \<^verbatim>\<open>PERFORM\<close> token and the token \<^verbatim>\<open>t\<close> after it, it
  returns \<^verbatim>\<open>t\<close> without its trailing periods, except that it returns nothing when
  that is one of the continuation words.
\<close>

theorem detectar_perform_tokens:
  assumes "split (upper linea) = partes"
  shows "(''PERFORM'' \<notin> set partes \<longrightarrow> detectar_perform linea = None)
       \<and> (\<forall>pre. partes = pre @ [''PERFORM''] \<and> ''PERFORM'' \<notin> set pre
             \<longrightarrow> detectar_perform linea = None)
       \<and> (\<forall>pre t post. partes = pre @ ''PERFORM'' # t # post \<and> ''PERFORM'' \<notin> set pre
             \<longrightarrow> detectar_perform linea =
                   (if rstrip_punto t \<in> set palabras_no_destino then None
                    else Some (rstrip_punto t))
                 \<and> (\<exists>k. t = rstrip_punto t @ replicate k (CHR ''.''))
                 \<and> (rstrip_punto t = [] \<or> last (rstrip_punto t) \<noteq> CHR ''.''))"
proof -
  have partes: "split (upper (strip linea)) = partes"
    using assms by (simp add: upper_strip split_strip)
  have a: "detectar_perform linea = None" if "''PERFORM'' \<notin> set partes"
    using that partes by (simp add: detectar_perform_def Let_def list_index_absent)
  have b: "detectar_perform linea = None"
    if "partes = pre @ [''PERFORM'']" "''PERFORM'' \<notin> set pre" for pre
  proof -
    have "list_index partes ''PERFORM'' = Inr (length pre)"
      using that by (simp add: list_index_first)
    moreover have "list_item partes (length pre + 1) = Inl IndexError"
      using that by (simp add: list_item_def)
    ultimately show ?thesis using partes by (simp add: detectar_perform_def Let_def)
  qed
  have c: "detectar_perform linea =
             (if rstrip_punto t \<in> set palabras_no_destino then None else Some (rstrip_punto t))"
    if "partes = pre @ ''PERFORM'' # t # post" "''PERFORM'' \<notin> set pre" for pre t post
  proof -
    have "''PERFORM'' \<in> set (split (upper linea))" using that assms by simp
    then have "contiene ''PERFORM'' (upper linea)" by (rule split_contiene)
    moreover have "list_index partes ''PERFORM'' = Inr (length pre)"
      using that by (simp add: list_index_first)
    moreover have "list_item partes (length pre + 1) = Inr t"
      using that by (simp add: list_item_def nth_append)
    ultimately show ?thesis using partes by (simp add: detectar_perform_def Let_def)
  qed
  show ?thesis using a b c rstrip_punto_decomp rstrip_punto_last by blast
qed

theorem detectar_perform_tokens_witness:
  "detectar_perform ''           PERFORM 2000-LEER.'' = Some ''2000-LEER''
   \<and> detectar_perform ''           PERFORM UNTIL FIN-ARCHIVO'' = None
   \<and> detectar_perform ''           PERFORM'' = None
   \<and> detectar_perform ''           MOVE A TO B.'' = None"
proof -
  have s1: "split (upper ''           PERFORM 2000-LEER.'') = [''PERFORM'', ''2000-LEER.'']"
    by code_simp
  have s2: "split (upper ''           PERFORM UNTIL FIN-ARCHIVO'') = [''PERFORM'', ''UNTIL'', ''FIN-ARCHIVO'']"
    by code_simp
  have s3: "split (upper ''           PERFORM'') = [''PERFORM'']"
    by code_simp
  have s4: "split (upper ''           MOVE A TO B.'') = [''MOVE'', ''A'', ''TO'', ''B.'']"
    by code_simp
  have r1: "rstrip_punto ''2000-LEER.'' = ''2000-LEER''" by (simp add: rstrip_punto_def)
  have r2: "rstrip_punto ''UNTIL'' = ''UNTIL''" by (simp add: rstrip_punto_def)
  note t1 = detectar_perform_tokens [OF s1, THEN conjunct2, THEN conjunct2, rule_format,
      of "[]" "''2000-LEER.''" "[]"]
  note t2 = detectar_perform_tokens [OF s2, THEN conjunct2, THEN conjunct2, rule_format,
      of "[]" "''UNTIL''" "[''FIN-ARCHIVO'']"]
  note t3 = detectar_perform_tokens [OF s3, THEN conjunct2, THEN conjunct1, rule_format, of "[]"]
  note t4 = detectar_perform_tokens [OF s4, THEN conjunct1, rule_format]
  have "detectar_perform ''           PERFORM 2000-LEER.'' = Some ''2000-LEER''"
    using t1 r1 by (simp add: palabras_no_destino_def)
  moreover have "detectar_perform ''           PERFORM UNTIL FIN-ARCHIVO'' = None"
    using t2 r2 by (simp add: palabras_no_destino_def)
  moreover have "detectar_perform ''           PERFORM'' = None"
    using t3 by simp
  moreover have "detectar_perform ''           MOVE A TO B.'' = None"
    using t4 by simp
  ultimately show ?thesis by blast
qed

section \<open>Evaluation on concrete text\<close>

text \<open>
  The character functions on the printable ASCII characters, the tabulator and the line
  feed, as tables: the examples below are evaluated with them.
\<close>

lemma upper_char_ascii:
  "upper_char (CHR 0x09) = [CHR 0x09]"
  "upper_char (CHR 0x0A) = [CHR 0x0A]"
  "upper_char (CHR 0x20) = [CHR 0x20]"
  "upper_char (CHR 0x21) = [CHR 0x21]"
  "upper_char (CHR 0x22) = [CHR 0x22]"
  "upper_char (CHR 0x23) = [CHR 0x23]"
  "upper_char (CHR 0x24) = [CHR 0x24]"
  "upper_char (CHR 0x25) = [CHR 0x25]"
  "upper_char (CHR 0x26) = [CHR 0x26]"
  "upper_char (CHR 0x27) = [CHR 0x27]"
  "upper_char (CHR 0x28) = [CHR 0x28]"
  "upper_char (CHR 0x29) = [CHR 0x29]"
  "upper_char (CHR 0x2A) = [CHR 0x2A]"
  "upper_char (CHR 0x2B) = [CHR 0x2B]"
  "upper_char (CHR 0x2C) = [CHR 0x2C]"
  "upper_char (CHR 0x2D) = [CHR 0x2D]"
  "upper_char (CHR 0x2E) = [CHR 0x2E]"
  "upper_char (CHR 0x2F) = [CHR 0x2F]"
  "upper_char (CHR 0x30) = [CHR 0x30]"
  "upper_char (CHR 0x31) = [CHR 0x31]"
  "upper_char (CHR 0x32) = [CHR 0x32]"
  "upper_char (CHR 0x33) = [CHR 0x33]"
  "upper_char (CHR 0x34) = [CHR 0x34]"
  "upper_char (CHR 0x35) = [CHR 0x35]"
  "upper_char (CHR 0x36) = [CHR 0x36]"
  "upper_char (CHR 0x37) = [CHR 0x37]"
  "upper_char (CHR 0x38) = [CHR 0x38]"
  "upper_char (CHR 0x39) = [CHR 0x39]"
  "upper_char (CHR 0x3A) = [CHR 0x3A]"
  "upper_char (CHR 0x3B) = [CHR 0x3B]"
  "upper_char (CHR 0x3C) = [CHR 0x3C]"
  "upper_char (CHR 0x3D) = [CHR 0x3D]"
  "upper_char (CHR 0x3E) = [CHR 0x3E]"
  "upper_char (CHR 0x3F) = [CHR 0x3F]"
  "upper_char (CHR 0x40) = [CHR 0x40]"
  "upper_char (CHR 0x41) = [CHR 0x41]"
  "upper_char (CHR 0x42) = [CHR 0x42]"
  "upper_char (CHR 0x43) = [CHR 0x43]"
  "upper_char (CHR 0x44) = [CHR 0x44]"
  "upper_char (CHR 0x45) = [CHR 0x45]"
  "upper_char (CHR 0x46) = [CHR 0x46]"
  "upper_char (CHR 0x47) = [CHR 0x47]"
  "upper_char (CHR 0x48) = [CHR 0x48]"
  "upper_char (CHR 0x49) = [CHR 0x49]"
  "upper_char (CHR 0x4A) = [CHR 0x4A]"
  "upper_char (CHR 0x4B) = [CHR 0x4B]"
  "upper_char (CHR 0x4C) = [CHR 0x4C]"
  "upper_char (CHR 0x4D) = [CHR 0x4D]"
  "upper_char (CHR 0x4E) = [CHR 0x4E]"
  "upper_char (CHR 0x4F) = [CHR 0x4F]"
  "upper_char (CHR 0x50) = [CHR 0x50]"
  "upper_char (CHR 0x51) = [CHR 0x51]"
  "upper_char (CHR 0x52) = [CHR 0x52]"
  "upper_char (CHR 0x53) = [CHR 0x53]"
  "upper_char (CHR 0x54) = [CHR 0x54]"
  "upper_char (CHR 0x55) = [CHR 0x55]"
  "upper_char (CHR 0x56) = [CHR 0x56]"
  "upper_char (CHR 0x57) = [CHR 0x57]"
  "upper_char (CHR 0x58) = [CHR 0x58]"
  "upper_char (CHR 0x59) = [CHR 0x59]"
  "upper_char (CHR 0x5A) = [CHR 0x5A]"
  "upper_char (CHR 0x5B) = [CHR 0x5B]"
  "upper_char (CHR 0x5C) = [CHR 0x5C]"
  "upper_char (CHR 0x5D) = [CHR 0x5D]"
  "upper_char (CHR 0x5E) = [CHR 0x5E]"
  "upper_char (CHR 0x5F) = [CHR 0x5F]"
  "upper_char (CHR 0x60) = [CHR 0x60]"
  "upper_char (CHR 0x61) = [CHR 0x41]"
  "upper_char (CHR 0x62) = [CHR 0x42]"
  "upper_char (CHR 0x63) = [CHR 0x43]"
  "upper_char (CHR 0x64) = [CHR 0x44]"
  "upper_char (CHR 0x65) = [CHR 0x45]"
  "upper_char (CHR 0x66) = [CHR 0x46]"
  "upper_char (CHR 0x67) = [CHR 0x47]"
  "upper_char (CHR 0x68) = [CHR 0x48]"
  "upper_char (CHR 0x69) = [CHR 0x49]"
  "upper_char (CHR 0x6A) = [CHR 0x4A]"
  "upper_char (CHR 0x6B) = [CHR 0x4B]"
  "upper_char (CHR 0x6C) = [CHR 0x4C]"
  "upper_char (CHR 0x6D) = [CHR 0x4D]"
  "upper_char (CHR 0x6E) = [CHR 0x4E]"
  "upper_char (CHR 0x6F) = [CHR 0x4F]"
  "upper_char (CHR 0x70) = [CHR 0x50]"
  "upper_char (CHR 0x71) = [CHR 0x51]"
  "upper_char (CHR 0x72) = [CHR 0x52]"
  "upper_char (CHR 0x73) = [CHR 0x53]"
  "upper_char (CHR 0x74) = [CHR 0x54]"
  "upper_char (CHR 0x75) = [CHR 0x55]"
  "upper_char (CHR 0x76) = [CHR 0x56]"
  "upper_char (CHR 0x77) = [CHR 0x57]"
  "upper_char (CHR 0x78) = [CHR 0x58]"
  "upper_char (CHR 0x79) = [CHR 0x59]"
  "upper_char (CHR 0x7A) = [CHR 0x5A]"
  "upper_char (CHR 0x7B) = [CHR 0x7B]"
  "upper_char (CHR 0x7C) = [CHR 0x7C]"
  "upper_char (CHR 0x7D) = [CHR 0x7D]"
  "upper_char (CHR 0x7E) = [CHR 0x7E]"
  by (simp_all add: upper_char_def cp_def char_of_def bit_Suc_0_iff bit_0)

lemma lower_char_ascii:
  "lower_char (CHR 0x09) = CHR 0x09"
  "lower_char (CHR 0x0A) = CHR 0x0A"
  "lower_char (CHR 0x20) = CHR 0x20"
  "lower_char (CHR 0x21) = CHR 0x21"
  "lower_char (CHR 0x22) = CHR 0x22"
  "lower_char (CHR 0x23) = CHR 0x23"
  "lower_char (CHR 0x24) = CHR 0x24"
  "lower_char (CHR 0x25) = CHR 0x25"
  "lower_char (CHR 0x26) = CHR 0x26"
  "lower_char (CHR 0x27) = CHR 0x27"
  "lower_char (CHR 0x28) = CHR 0x28"
  "lower_char (CHR 0x29) = CHR 0x29"
  "lower_char (CHR 0x2A) = CHR 0x2A"
  "lower_char (CHR 0x2B) = CHR 0x2B"
  "lower_char (CHR 0x2C) = CHR 0x2C"
  "lower_char (CHR 0x2D) = CHR 0x2D"
  "lower_char (CHR 0x2E) = CHR 0x2E"
  "lower_char (CHR 0x2F) = CHR 0x2F"
  "lower_char (CHR 0x30) = CHR 0x30"
  "lower_char (CHR 0x31) = CHR 0x31"
  "lower_char (CHR 0x32) = CHR 0x32"
  "lower_char (CHR 0x33) = CHR 0x33"
  "lower_char (CHR 0x34) = CHR 0x34"
  "lower_char (CHR 0x35) = CHR 0x35"
  "lower_char (CHR 0x36) = CHR 0x36"
  "lower_char (CHR 0x37) = CHR 0x37"
  "lower_char (CHR 0x38) = CHR 0x38"
  "lower_char (CHR 0x39) = CHR 0x39"
  "lower_char (CHR 0x3A) = CHR 0x3A"
  "lower_char (CHR 0x3B) = CHR 0x3B"
  "lower_char (CHR 0x3C) = CHR 0x3C"
  "lower_char (CHR 0x3D) = CHR 0x3D"
  "lower_char (CHR 0x3E) = CHR 0x3E"
  "lower_char (CHR 0x3F) = CHR 0x3F"
  "lower_char (CHR 0x40) = CHR 0x40"
  "lower_char (CHR 0x41) = CHR 0x61"
  "lower_char (CHR 0x42) = CHR 0x62"
  "lower_char (CHR 0x43) = CHR 0x63"
  "lower_char (CHR 0x44) = CHR 0x64"
  "lower_char (CHR 0x45) = CHR 0x65"
  "lower_char (CHR 0x46) = CHR 0x66"
  "lower_char (CHR 0x47) = CHR 0x67"
  "lower_char (CHR 0x48) = CHR 0x68"
  "lower_char (CHR 0x49) = CHR 0x69"
  "lower_char (CHR 0x4A) = CHR 0x6A"
  "lower_char (CHR 0x4B) = CHR 0x6B"
  "lower_char (CHR 0x4C) = CHR 0x6C"
  "lower_char (CHR 0x4D) = CHR 0x6D"
  "lower_char (CHR 0x4E) = CHR 0x6E"
  "lower_char (CHR 0x4F) = CHR 0x6F"
  "lower_char (CHR 0x50) = CHR 0x70"
  "lower_char (CHR 0x51) = CHR 0x71"
  "lower_char (CHR 0x52) = CHR 0x72"
  "lower_char (CHR 0x53) = CHR 0x73"
  "lower_char (CHR 0x54) = CHR 0x74"
  "lower_char (CHR 0x55) = CHR 0x75"
  "lower_char (CHR 0x56) = CHR 0x76"
  "lower_char (CHR 0x57) = CHR 0x77"
  "lower_char (CHR 0x58) = CHR 0x78"
  "lower_char (CHR 0x59) = CHR 0x79"
  "lower_char (CHR 0x5A) = CHR 0x7A"
  "lower_char (CHR 0x5B) = CHR 0x5B"
  "lower_char (CHR 0x5C) = CHR 0x5C"
  "lower_char (CHR 0x5D) = CHR 0x5D"
  "lower_char (CHR 0x5E) = CHR 0x5E"
  "lower_char (CHR 0x5F) = CHR 0x5F"
  "lower_char (CHR 0x60) = CHR 0x60"
  "lower_char (CHR 0x61) = CHR 0x61"
  "lower_char (CHR 0x62) = CHR 0x62"
  "lower_char (CHR 0x63) = CHR 0x63"
  "lower_char (CHR 0x64) = CHR 0x64"
  "lower_char (CHR 0x65) = CHR 0x65"
  "lower_char (CHR 0x66) = CHR 0x66"
  "lower_char (CHR 0x67) = CHR 0x67"
  "lower_char (CHR 0x68) = CHR 0x68"
  "lower_char (CHR 0x69) = CHR 0x69"
  "lower_char (CHR 0x6A) = CHR 0x6A"
  "lower_char (CHR 0x6B) = CHR 0x6B"
  "lower_char (CHR 0x6C) = CHR 0x6C"
  "lower_char (CHR 0x6D) = CHR 0x6D"
  "lower_char (CHR 0x6E) = CHR 0x6E"
  "lower_char (CHR 0x6F) = CHR 0x6F"
  "lower_char (CHR 0x70) = CHR 0x70"
  "lower_char (CHR 0x71) = CHR 0x71"
  "lower_char (CHR 0x72) = CHR 0x72"
  "lower_char (CHR 0x73) = CHR 0x73"
  "lower_char (CHR 0x74) = CHR 0x74"
  "lower_char (CHR 0x75) = CHR 0x75"
  "lower_char (CHR 0x76) = CHR 0x76"
  "lower_char (CHR 0x77) = CHR 0x77"
  "lower_char (CHR 0x78) = CHR 0x78"
  "lower_char (CHR 0x79) = CHR 0x79"
  "lower_char (CHR 0x7A) = CHR 0x7A"
  "lower_char (CHR 0x7B) = CHR 0x7B"
  "lower_char (CHR 0x7C) = CHR 0x7C"
  "lower_char (CHR 0x7D) = CHR 0x7D"
  "lower_char (CHR 0x7E) = CHR 0x7E"
  by (simp_all add: lower_char_def cp_def char_of_def bit_Suc_0_iff bit_0)

lemma upper_Nil: "upper [] = []"
  by (simp add: upper_def)

lemma upper_Cons: "upper (c # s) = upper_char c @ upper s"
  by (simp add: upper_def)

lemma isspace_ascii:
  "isspace (CHR 0x09)"
  "isspace (CHR 0x0A)"
  "isspace (CHR 0x20)"
  "\<not> isspace (CHR 0x21)"
  "\<not> isspace (CHR 0x22)"
  "\<not> isspace (CHR 0x23)"
  "\<not> isspace (CHR 0x24)"
  "\<not> isspace (CHR 0x25)"
  "\<not> isspace (CHR 0x26)"
  "\<not> isspace (CHR 0x27)"
  "\<not> isspace (CHR 0x28)"
  "\<not> isspace (CHR 0x29)"
  "\<not> isspace (CHR 0x2A)"
  "\<not> isspace (CHR 0x2B)"
  "\<not> isspace (CHR 0x2C)"
  "\<not> isspace (CHR 0x2D)"
  "\<not> isspace (CHR 0x2E)"
  "\<not> isspace (CHR 0x2F)"
  "\<not> isspace (CHR 0x30)"
  "\<not> isspace (CHR 0x31)"
  "\<not> isspace (CHR 0x32)"
  "\<not> isspace (CHR 0x33)"
  "\<not> isspace (CHR 0x34)"
  "\<not> isspace (CHR 0x35)"
  "\<not> isspace (CHR 0x36)"
  "\<not> isspace (CHR 0x37)"
  "\<not> isspace (CHR 0x38)"
  "\<not> isspace (CHR 0x39)"
  "\<not> isspace (CHR 0x3A)"
  "\<not> isspace (CHR 0x3B)"
  "\<not> isspace (CHR 0x3C)"
  "\<not> isspace (CHR 0x3D)"
  "\<not> isspace (CHR 0x3E)"
  "\<not> isspace (CHR 0x3F)"
  "\<not> isspace (CHR 0x40)"
  "\<not> isspace (CHR 0x41)"
  "\<not> isspace (CHR 0x42)"
  "\<not> isspace (CHR 0x43)"
  "\<not> isspace (CHR 0x44)"
  "\<not> isspace (CHR 0x45)"
  "\<not> isspace (CHR 0x46)"
  "\<not> isspace (CHR 0x47)"
  "\<not> isspace (CHR 0x48)"
  "\<not> isspace (CHR 0x49)"
  "\<not> isspace (CHR 0x4A)"
  "\<not> isspace (CHR 0x4B)"
  "\<not> isspace (CHR 0x4C)"
  "\<not> isspace (CHR 0x4D)"
  "\<not> isspace (CHR 0x4E)"
  "\<not> isspace (CHR 0x4F)"
  "\<not> isspace (CHR 0x50)"
  "\<not> isspace (CHR 0x51)"
  "\<not> isspace (CHR 0x52)"
  "\<not> isspace (CHR 0x53)"
  "\<not> isspace (CHR 0x54)"
  "\<not> isspace (CHR 0x55)"
  "\<not> isspace (CHR 0x56)"
  "\<not> isspace (CHR 0x57)"
  "\<not> isspace (CHR 0x58)"
  "\<not> isspace (CHR 0x59)"
  "\<not> isspace (CHR 0x5A)"
  "\<not> isspace (CHR 0x5B)"
  "\<not> isspace (CHR 0x5C)"
  "\<not> isspace (CHR 0x5D)"
  "\<not> isspace (CHR 0x5E)"
  "\<not> isspace (CHR 0x5F)"
  "\<not> isspace (CHR 0x60)"
  "\<not> isspace (CHR 0x61)"
  "\<not> isspace (CHR 0x62)"
  "\<not> isspace (CHR 0x63)"
  "\<not> isspace (CHR 0x64)"
  "\<not> isspace (CHR 0x65)"
  "\<not> isspace (CHR 0x66)"
  "\<not> isspace (CHR 0x67)"
  "\<not> isspace (CHR 0x68)"
  "\<not> isspace (CHR 0x69)"
  "\<not> isspace (CHR 0x6A)"
  "\<not> isspace (CHR 0x6B)"
  "\<not> isspace (CHR 0x6C)"
  "\<not> isspace (CHR 0x6D)"
  "\<not> isspace (CHR 0x6E)"
  "\<not> isspace (CHR 0x6F)"
  "\<not> isspace (CHR 0x70)"
  "\<not> isspace (CHR 0x71)"
  "\<not> isspace (CHR 0x72)"
  "\<not> isspace (CHR 0x73)"
  "\<not> isspace (CHR 0x74)"
  "\<not> isspace (CHR 0x75)"
  "\<not> isspace (CHR 0x76)"
  "\<not> isspace (CHR 0x77)"
  "\<not> isspace (CHR 0x78)"
  "\<not> isspace (CHR 0x79)"
  "\<not> isspace (CHR 0x7A)"
  "\<not> isspace (CHR 0x7B)"
  "\<not> isspace (CHR 0x7C)"
  "\<not> isspace (CHR 0x7D)"
  "\<not> isspace (CHR 0x7E)"
  by (simp_all add: isspace_def cp_def)

lemma es_palabra_ascii:
  "\<not> es_palabra (CHR 0x09)"
  "\<not> es_palabra (CHR 0x0A)"
  "\<not> es_palabra (CHR 0x20)"
  "\<not> es_palabra (CHR 0x21)"
  "\<not> es_palabra (CHR 0x22)"
  "\<not> es_palabra (CHR 0x23)"
  "\<not> es_palabra (CHR 0x24)"
  "\<not> es_palabra (CHR 0x25)"
  "\<not> es_palabra (CHR 0x26)"
  "\<not> es_palabra (CHR 0x27)"
  "\<not> es_palabra (CHR 0x28)"
  "\<not> es_palabra (CHR 0x29)"
  "\<not> es_palabra (CHR 0x2A)"
  "\<not> es_palabra (CHR 0x2B)"
  "\<not> es_palabra (CHR 0x2C)"
  "\<not> es_palabra (CHR 0x2D)"
  "\<not> es_palabra (CHR 0x2E)"
  "\<not> es_palabra (CHR 0x2F)"
  "es_palabra (CHR 0x30)"
  "es_palabra (CHR 0x31)"
  "es_palabra (CHR 0x32)"
  "es_palabra (CHR 0x33)"
  "es_palabra (CHR 0x34)"
  "es_palabra (CHR 0x35)"
  "es_palabra (CHR 0x36)"
  "es_palabra (CHR 0x37)"
  "es_palabra (CHR 0x38)"
  "es_palabra (CHR 0x39)"
  "\<not> es_palabra (CHR 0x3A)"
  "\<not> es_palabra (CHR 0x3B)"
  "\<not> es_palabra (CHR 0x3C)"
  "\<not> es_palabra (CHR 0x3D)"
  "\<not> es_palabra (CHR 0x3E)"
  "\<not> es_palabra (CHR 0x3F)"
  "\<not> es_palabra (CHR 0x40)"
  "es_palabra (CHR 0x41)"
  "es_palabra (CHR 0x42)"
  "es_palabra (CHR 0x43)"
  "es_palabra (CHR 0x44)"
  "es_palabra (CHR 0x45)"
  "es_palabra (CHR 0x46)"
  "es_palabra (CHR 0x47)"
  "es_palabra (CHR 0x48)"
  "es_palabra (CHR 0x49)"
  "es_palabra (CHR 0x4A)"
  "es_palabra (CHR 0x4B)"
  "es_palabra (CHR 0x4C)"
  "es_palabra (CHR 0x4D)"
  "es_palabra (CHR 0x4E)"
  "es_palabra (CHR 0x4F)"
  "es_palabra (CHR 0x50)"
  "es_palabra (CHR 0x51)"
  "es_palabra (CHR 0x52)"
  "es_palabra (CHR 0x53)"
  "es_palabra (CHR 0x54)"
  "es_palabra (CHR 0x55)"
  "es_palabra (CHR 0x56)"
  "es_palabra (CHR 0x57)"
  "es_palabra (CHR 0x58)"
  "es_palabra (CHR 0x59)"
  "es_palabra (CHR 0x5A)"
  "\<not> es_palabra (CHR 0x5B)"
  "\<not> es_palabra (CHR 0x5C)"
  "\<not> es_palabra (CHR 0x5D)"
  "\<not> es_palabra (CHR 0x5E)"
  "es_palabra (CHR 0x5F)"
  "\<not> es_palabra (CHR 0x60)"
  "es_palabra (CHR 0x61)"
  "es_palabra (CHR 0x62)"
  "es_palabra (CHR 0x63)"
  "es_palabra (CHR 0x64)"
  "es_palabra (CHR 0x65)"
  "es_palabra (CHR 0x66)"
  "es_palabra (CHR 0x67)"
  "es_palabra (CHR 0x68)"
  "es_palabra (CHR 0x69)"
  "es_palabra (CHR 0x6A)"
  "es_palabra (CHR 0x6B)"
  "es_palabra (CHR 0x6C)"
  "es_palabra (CHR 0x6D)"
  "es_palabra (CHR 0x6E)"
  "es_palabra (CHR 0x6F)"
  "es_palabra (CHR 0x70)"
  "es_palabra (CHR 0x71)"
  "es_palabra (CHR 0x72)"
  "es_palabra (CHR 0x73)"
  "es_palabra (CHR 0x74)"
  "es_palabra (CHR 0x75)"
  "es_palabra (CHR 0x76)"
  "es_palabra (CHR 0x77)"
  "es_palabra (CHR 0x78)"
  "es_palabra (CHR 0x79)"
  "es_palabra (CHR 0x7A)"
  "\<not> es_palabra (CHR 0x7B)"
  "\<not> es_palabra (CHR 0x7C)"
  "\<not> es_palabra (CHR 0x7D)"
  "\<not> es_palabra (CHR 0x7E)"
  by (simp_all add: es_palabra_def cp_def)

lemma es_alnum_i_ascii:
  "\<not> es_alnum_i (CHR 0x09)"
  "\<not> es_alnum_i (CHR 0x0A)"
  "\<not> es_alnum_i (CHR 0x20)"
  "\<not> es_alnum_i (CHR 0x21)"
  "\<not> es_alnum_i (CHR 0x22)"
  "\<not> es_alnum_i (CHR 0x23)"
  "\<not> es_alnum_i (CHR 0x24)"
  "\<not> es_alnum_i (CHR 0x25)"
  "\<not> es_alnum_i (CHR 0x26)"
  "\<not> es_alnum_i (CHR 0x27)"
  "\<not> es_alnum_i (CHR 0x28)"
  "\<not> es_alnum_i (CHR 0x29)"
  "\<not> es_alnum_i (CHR 0x2A)"
  "\<not> es_alnum_i (CHR 0x2B)"
  "\<not> es_alnum_i (CHR 0x2C)"
  "\<not> es_alnum_i (CHR 0x2D)"
  "\<not> es_alnum_i (CHR 0x2E)"
  "\<not> es_alnum_i (CHR 0x2F)"
  "es_alnum_i (CHR 0x30)"
  "es_alnum_i (CHR 0x31)"
  "es_alnum_i (CHR 0x32)"
  "es_alnum_i (CHR 0x33)"
  "es_alnum_i (CHR 0x34)"
  "es_alnum_i (CHR 0x35)"
  "es_alnum_i (CHR 0x36)"
  "es_alnum_i (CHR 0x37)"
  "es_alnum_i (CHR 0x38)"
  "es_alnum_i (CHR 0x39)"
  "\<not> es_alnum_i (CHR 0x3A)"
  "\<not> es_alnum_i (CHR 0x3B)"
  "\<not> es_alnum_i (CHR 0x3C)"
  "\<not> es_alnum_i (CHR 0x3D)"
  "\<not> es_alnum_i (CHR 0x3E)"
  "\<not> es_alnum_i (CHR 0x3F)"
  "\<not> es_alnum_i (CHR 0x40)"
  "es_alnum_i (CHR 0x41)"
  "es_alnum_i (CHR 0x42)"
  "es_alnum_i (CHR 0x43)"
  "es_alnum_i (CHR 0x44)"
  "es_alnum_i (CHR 0x45)"
  "es_alnum_i (CHR 0x46)"
  "es_alnum_i (CHR 0x47)"
  "es_alnum_i (CHR 0x48)"
  "es_alnum_i (CHR 0x49)"
  "es_alnum_i (CHR 0x4A)"
  "es_alnum_i (CHR 0x4B)"
  "es_alnum_i (CHR 0x4C)"
  "es_alnum_i (CHR 0x4D)"
  "es_alnum_i (CHR 0x4E)"
  "es_alnum_i (CHR 0x4F)"
  "es_alnum_i (CHR 0x50)"
  "es_alnum_i (CHR 0x51)"
  "es_alnum_i (CHR 0x52)"
  "es_alnum_i (CHR 0x53)"
  "es_alnum_i (CHR 0x54)"
  "es_alnum_i (CHR 0x55)"
  "es_alnum_i (CHR 0x56)"
  "es_alnum_i (CHR 0x57)"
  "es_alnum_i (CHR 0x58)"
  "es_alnum_i (CHR 0x59)"
  "es_alnum_i (CHR 0x5A)"
  "\<not> es_alnum_i (CHR 0x5B)"
  "\<not> es_alnum_i (CHR 0x5C)"
  "\<not> es_alnum_i (CHR 0x5D)"
  "\<not> es_alnum_i (CHR 0x5E)"
  "\<not> es_alnum_i (CHR 0x5F)"
  "\<not> es_alnum_i (CHR 0x60)"
  "es_alnum_i (CHR 0x61)"
  "es_alnum_i (CHR 0x62)"
  "es_alnum_i (CHR 0x63)"
  "es_alnum_i (CHR 0x64)"
  "es_alnum_i (CHR 0x65)"
  "es_alnum_i (CHR 0x66)"
  "es_alnum_i (CHR 0x67)"
  "es_alnum_i (CHR 0x68)"
  "es_alnum_i (CHR 0x69)"
  "es_alnum_i (CHR 0x6A)"
  "es_alnum_i (CHR 0x6B)"
  "es_alnum_i (CHR 0x6C)"
  "es_alnum_i (CHR 0x6D)"
  "es_alnum_i (CHR 0x6E)"
  "es_alnum_i (CHR 0x6F)"
  "es_alnum_i (CHR 0x70)"
  "es_alnum_i (CHR 0x71)"
  "es_alnum_i (CHR 0x72)"
  "es_alnum_i (CHR 0x73)"
  "es_alnum_i (CHR 0x74)"
  "es_alnum_i (CHR 0x75)"
  "es_alnum_i (CHR 0x76)"
  "es_alnum_i (CHR 0x77)"
  "es_alnum_i (CHR 0x78)"
  "es_alnum_i (CHR 0x79)"
  "es_alnum_i (CHR 0x7A)"
  "\<not> es_alnum_i (CHR 0x7B)"
  "\<not> es_alnum_i (CHR 0x7C)"
  "\<not> es_alnum_i (CHR 0x7D)"
  "\<not> es_alnum_i (CHR 0x7E)"
  by (simp_all add: es_alnum_i_def es_mayuscula_ascii_def es_minuscula_ascii_def es_digito_ascii_def cp_def)

lemmas caracteres = upper_char_ascii lower_char_ascii isspace_ascii es_palabra_ascii
  es_alnum_i_ascii upper_Nil upper_Cons no_salto_def es_nombre_i_def es_comilla_def es_palabra_o_guion_def
  lstrip_def rstrip_def strip_def nl_def

lemmas expresiones = cuentas_def borde_def primera_def re_match_def re_search_def
  re_finditer_def re_finditer_desde.simps Let_def

lemmas patrones_sql = extraer_sentencias_sql_def rx_select_def rx_insert_def rx_update_def
  rx_delete_def rx_open_def rx_close_def rx_fetch_def procesar_bloque_sql_def anotar_def
  dict_append_def dict_get_def

lemmas detectores = es_linea_ignorable_def detectar_parrafo_def area_de_codigo_def
  sentencias_iniciales_def excluidos_def rx_parrafo_def detectar_perform_def split_def
  list_item_def rstrip_punto_def palabras_no_destino_def verdadero_def texto_def

lemmas analisis = analizar_cobol_def escaneo_inicial_def claves_def

section \<open>SQL blocks and the scan\<close>

text \<open>
  C6, at the code: the statement extractor finds in the text
  \<^verbatim>\<open>EXEC SQL SELECT A, B FROM CUSTOMERS END-EXEC\<close> the one statement
  \<^verbatim>\<open>(SELECT, CUSTOMERS)\<close>, but the scan never hands it that text. \<^verbatim>\<open>analizar_cobol\<close>
  takes the line that contains \<^verbatim>\<open>EXEC SQL\<close> from the file before it calls
  \<^verbatim>\<open>procesar_bloque_sql\<close>, which reads the block from the lines that follow. So for the
  block on one line inside paragraph \<^verbatim>\<open>P1\<close> the scan counts one block and attaches no
  annotation to \<^verbatim>\<open>P1\<close>; the annotation \<^verbatim>\<open>SELECT ... CUSTOMERS\<close> appears when
  \<^verbatim>\<open>EXEC SQL\<close> stands on a line of its own.
\<close>

theorem select_customers_on_one_line_is_lost:
  "extraer_sentencias_sql ''EXEC SQL SELECT A, B FROM CUSTOMERS END-EXEC''
     = [(''SELECT'', ''CUSTOMERS'')]
   \<and> analizar_cobol
     (Some [''       PROCEDURE DIVISION.'' @ nl,
            ''       P1.'' @ nl,
            ''           EXEC SQL SELECT A, B FROM CUSTOMERS END-EXEC'' @ nl])
     None True
   = ([(''P1'', [])], 1, [])
   \<and> analizar_cobol
     (Some [''       PROCEDURE DIVISION.'' @ nl,
            ''       P1.'' @ nl,
            ''           EXEC SQL'' @ nl,
            ''             SELECT A, B FROM CUSTOMERS'' @ nl,
            ''           END-EXEC'' @ nl])
     None True
   = ([(''P1'', [])], 1, [(''P1'', [''SELECT ... CUSTOMERS''])])"
proof -
  have e: "extraer_sentencias_sql ''EXEC SQL SELECT A, B FROM CUSTOMERS END-EXEC''
             = [(''SELECT'', ''CUSTOMERS'')]"
    by (simp add: caracteres expresiones patrones_sql)
  have a: "analizar_cobol
     (Some [''       PROCEDURE DIVISION.'' @ nl,
            ''       P1.'' @ nl,
            ''           EXEC SQL SELECT A, B FROM CUSTOMERS END-EXEC'' @ nl])
     None True
   = ([(''P1'', [])], 1, [])"
    by (simp add: caracteres expresiones patrones_sql detectores analisis)
  have b: "analizar_cobol
     (Some [''       PROCEDURE DIVISION.'' @ nl,
            ''       P1.'' @ nl,
            ''           EXEC SQL'' @ nl,
            ''             SELECT A, B FROM CUSTOMERS'' @ nl,
            ''           END-EXEC'' @ nl])
     None True
   = ([(''P1'', [])], 1, [(''P1'', [''SELECT ... CUSTOMERS''])])"
    by (simp add: caracteres expresiones patrones_sql detectores analisis)
  from e a b show ?thesis by simp
qed

text \<open>
  C2, at the code: with SQL analysis on, an SQL block of the WORKING-STORAGE SECTION,
  before the header of the PROCEDURE DIVISION, is counted and its statement is filed
  under \<^verbatim>\<open>__START__\<close>; the same program without those lines gives the counter 0 and
  an empty SQL index.
\<close>

theorem sql_before_procedure_division_is_counted:
  "analizar_cobol
     (Some [''       WORKING-STORAGE SECTION.'' @ nl,
            ''           EXEC SQL'' @ nl,
            ''             DECLARE C1 CURSOR FOR SELECT A FROM T1'' @ nl,
            ''           END-EXEC.'' @ nl,
            ''       PROCEDURE DIVISION.'' @ nl,
            ''       P1.'' @ nl,
            ''           PERFORM P2.'' @ nl])
     None True
   = ([(''P1'', [''P2''])], 1, [(''__START__'', [''SELECT ... T1''])])
   \<and> analizar_cobol
     (Some [''       PROCEDURE DIVISION.'' @ nl,
            ''       P1.'' @ nl,
            ''           PERFORM P2.'' @ nl])
     None True
   = ([(''P1'', [''P2''])], 0, [])"
proof -
  have a: "analizar_cobol
     (Some [''       WORKING-STORAGE SECTION.'' @ nl,
            ''           EXEC SQL'' @ nl,
            ''             DECLARE C1 CURSOR FOR SELECT A FROM T1'' @ nl,
            ''           END-EXEC.'' @ nl,
            ''       PROCEDURE DIVISION.'' @ nl,
            ''       P1.'' @ nl,
            ''           PERFORM P2.'' @ nl])
     None True
   = ([(''P1'', [''P2''])], 1, [(''__START__'', [''SELECT ... T1''])])"
    by (simp add: caracteres expresiones patrones_sql detectores analisis)
  have b: "analizar_cobol
     (Some [''       PROCEDURE DIVISION.'' @ nl,
            ''       P1.'' @ nl,
            ''           PERFORM P2.'' @ nl])
     None True
   = ([(''P1'', [''P2''])], 0, [])"
    by (simp add: caracteres expresiones patrones_sql detectores analisis)
  from a b show ?thesis by simp
qed

end
